theory Spec2Isabelle
  imports Complex_Main "HOL-Library.Monad_Syntax" "HOL-Library.Product_Lexorder"
begin

section \<open>Bookeo MCP server: the paginated fetch core and the tool layer\<close>

text \<open>
  A shallow embedding of \<^verbatim>\<open>bookeo_mcp/bookeo_client.py\<close> (the class \<^verbatim>\<open>BookeoClient\<close>) and
  of \<^verbatim>\<open>bookeo_mcp/server.py\<close> (the four tools and their formatting helpers).

  \<^item> An exception is a value of \<open>error\<close>; a computation that can raise returns
    \<open>error + 'a\<close> with \<open>Inl\<close> the exception.
  \<^item> The HTTP transport is the sequence of replies it gives: reply \<open>i\<close> answers the
    \<open>i\<close>-th \<^verbatim>\<open>client.get\<close> of the run. The requests issued and the sleeps taken are
    logged in a state that every operation threads through.
  \<^item> The three loops of the client (429 retry, pagination, chunking) are recursive
    functions in the option monad: \<open>None\<close> is a run that never returns.
  \<^item> JSON documents of the upstream service are typed records whose fields are
    optional: \<open>None\<close> is an absent key. A document whose values have other JSON types than
    the ones the service documents is outside the model.
  \<^item> Python's \<^verbatim>\<open>float\<close> and the built-in \<^verbatim>\<open>sum\<close> over floats, and the time zone table
    behind \<^verbatim>\<open>ZoneInfo("America/Los_Angeles")\<close>, are parameters.
\<close>

subsection \<open>Exceptions\<close>

datatype error =
    ValueError
  | OverflowError
  | HTTPStatusError int
  | TransportError
  | JSONDecodeError

subsection \<open>Strings\<close>

text \<open>
  A string is a list of 8-bit characters. \<open>is_space\<close> is \<^verbatim>\<open>str.isspace\<close> on ASCII,
  \<open>lower\<close> is \<^verbatim>\<open>str.lower\<close> on ASCII letters and \<open>is_in a b\<close> is \<^verbatim>\<open>a in b\<close>.
\<close>

definition is_space :: "char \<Rightarrow> bool" where
  "is_space c =
     (let n = (of_char c :: nat) in (9 \<le> n \<and> n \<le> 13) \<or> (28 \<le> n \<and> n \<le> 32))"

definition strip :: "string \<Rightarrow> string" where
  "strip s = rev (dropWhile is_space (rev (dropWhile is_space s)))"

definition lower_char :: "char \<Rightarrow> char" where
  "lower_char c =
     (case map_of (zip ''ABCDEFGHIJKLMNOPQRSTUVWXYZ'' ''abcdefghijklmnopqrstuvwxyz'') c of
        None \<Rightarrow> c
      | Some l \<Rightarrow> l)"

definition lower :: "string \<Rightarrow> string" where
  "lower s = map lower_char s"

fun is_in :: "string \<Rightarrow> string \<Rightarrow> bool" where
  "is_in sub [] = (sub = [])"
| "is_in sub (c # cs) = (take (length sub) (c # cs) = sub \<or> is_in sub cs)"

definition digit_val :: "char \<Rightarrow> int option" where
  "digit_val c =
     (let n = (of_char c :: nat) in if 48 \<le> n \<and> n \<le> 57 then Some (int n - 48) else None)"

definition is_digit :: "char \<Rightarrow> bool" where
  "is_digit c = (digit_val c \<noteq> None)"

definition dv :: "char \<Rightarrow> int" where
  "dv c = (case digit_val c of None \<Rightarrow> 0 | Some v \<Rightarrow> v)"

definition digits_val :: "string \<Rightarrow> int" where
  "digits_val s = foldl (\<lambda>acc c. 10 * acc + dv c) 0 s"

text \<open>
  \<^verbatim>\<open>int(s)\<close> on a string: surrounding whitespace is dropped, one sign is allowed, and the
  rest is decimal digits, where single underscores may separate digits. Anything else
  raises \<^verbatim>\<open>ValueError\<close>.
\<close>

fun int_body_ok :: "string \<Rightarrow> bool" where
  "int_body_ok [] = False"
| "int_body_ok [c] = is_digit c"
| "int_body_ok (c # d # r) =
     (is_digit c \<and> (if d = CHR ''_'' then int_body_ok r else int_body_ok (d # r)))"

definition py_int :: "string \<Rightarrow> error + int" where
  "py_int s =
     (let t = strip s;
          neg = (t \<noteq> [] \<and> hd t = CHR ''-'');
          body = (if t \<noteq> [] \<and> (hd t = CHR ''-'' \<or> hd t = CHR ''+'') then tl t else t)
      in if int_body_ok body
         then Inr ((if neg then - 1 else 1) * digits_val (filter (\<lambda>c. c \<noteq> CHR ''_'') body))
         else Inl ValueError)"

subsection \<open>Calendar: \<^verbatim>\<open>datetime\<close> of the standard library\<close>

text \<open>
  The proleptic Gregorian calendar as \<^verbatim>\<open>datetime\<close> implements it: \<open>ymd2ord\<close> and
  \<open>ord2ymd\<close> convert between a date and its ordinal, day 1 being 0001-01-01.
\<close>

definition is_leap :: "int \<Rightarrow> bool" where
  "is_leap y = (y mod 4 = 0 \<and> (y mod 100 \<noteq> 0 \<or> y mod 400 = 0))"

definition days_before_year :: "int \<Rightarrow> int" where
  "days_before_year y = (let y1 = y - 1 in y1 * 365 + y1 div 4 - y1 div 100 + y1 div 400)"

definition DAYS_IN_MONTH :: "int list" where
  "DAYS_IN_MONTH = [31, 28, 31, 30, 31, 30, 31, 31, 30, 31, 30, 31]"

definition DAYS_BEFORE_MONTH :: "int list" where
  "DAYS_BEFORE_MONTH = [0, 31, 59, 90, 120, 151, 181, 212, 243, 273, 304, 334]"

definition days_in_month :: "int \<Rightarrow> int \<Rightarrow> int" where
  "days_in_month y m = (if m = 2 \<and> is_leap y then 29 else DAYS_IN_MONTH ! nat (m - 1))"

definition days_before_month :: "int \<Rightarrow> int \<Rightarrow> int" where
  "days_before_month y m =
     DAYS_BEFORE_MONTH ! nat (m - 1) + (if 2 < m \<and> is_leap y then 1 else 0)"

definition ymd2ord :: "int \<Rightarrow> int \<Rightarrow> int \<Rightarrow> int" where
  "ymd2ord y m d = days_before_year y + days_before_month y m + d"

definition ord2ymd :: "int \<Rightarrow> int \<times> int \<times> int" where
  "ord2ymd n0 =
     (let n = n0 - 1;
          n400 = n div 146097; n = n mod 146097;
          n100 = n div 36524; n = n mod 36524;
          n4 = n div 1461; n = n mod 1461;
          n1 = n div 365; n = n mod 365;
          year = n400 * 400 + 1 + n100 * 100 + n4 * 4 + n1
      in if n1 = 4 \<or> n100 = 4 then (year - 1, 12, 31)
         else
           let leapyear = (n1 = 3 \<and> (n4 \<noteq> 24 \<or> n100 = 3));
               month = (n + 50) div 32;
               preceding = DAYS_BEFORE_MONTH ! nat (month - 1)
                             + (if 2 < month \<and> leapyear then 1 else 0)
           in if n < preceding
              then
                let month = month - 1;
                    preceding = preceding
                      - (DAYS_IN_MONTH ! nat (month - 1)
                           + (if month = 2 \<and> leapyear then 1 else 0))
                in (year, month, n - preceding + 1)
              else (year, month, n - preceding + 1))"

definition MAXORDINAL :: int where
  "MAXORDINAL = 3652059"

text \<open>
  A naive \<^verbatim>\<open>datetime\<close>. The date is held as its ordinal (\<^verbatim>\<open>toordinal()\<close>), between 1 and
  \<open>MAXORDINAL\<close> (9999-12-31); the time of day is held field by field.
\<close>

record datetime =
  ordinal :: int
  hour :: nat
  minute :: nat
  second :: nat
  microsecond :: nat

definition dt_key :: "datetime \<Rightarrow> int \<times> nat \<times> nat \<times> nat \<times> nat" where
  "dt_key d = (ordinal d, hour d, minute d, second d, microsecond d)"

definition dt_less :: "datetime \<Rightarrow> datetime \<Rightarrow> bool" where
  \<comment> \<open>\<^verbatim>\<open>a < b\<close>: the fields are compared in order.\<close>
  "dt_less a b = (dt_key a < dt_key b)"

definition dt_min :: "datetime \<Rightarrow> datetime \<Rightarrow> datetime" where
  \<comment> \<open>\<^verbatim>\<open>min(a, b)\<close> keeps its first argument unless the second is smaller.\<close>
  "dt_min a b = (if dt_less b a then b else a)"

definition add_days :: "datetime \<Rightarrow> int \<Rightarrow> error + datetime" where
  \<comment> \<open>\<^verbatim>\<open>d + timedelta(days=n)\<close>; both the timedelta and the sum have a range.\<close>
  "add_days d n =
     (if 999999999 < \<bar>n\<bar> then Inl OverflowError
      else if 0 < ordinal d + n \<and> ordinal d + n \<le> MAXORDINAL
      then Inr (d\<lparr>ordinal := ordinal d + n\<rparr>)
      else Inl OverflowError)"

definition dt_micros :: "datetime \<Rightarrow> int" where
  "dt_micros d =
     (((ordinal d * 24 + int (hour d)) * 60 + int (minute d)) * 60 + int (second d)) * 1000000
       + int (microsecond d)"

definition diff_days :: "datetime \<Rightarrow> datetime \<Rightarrow> int" where
  \<comment> \<open>\<^verbatim>\<open>(a - b).days\<close>: a timedelta is normalised, its days rounded down.\<close>
  "diff_days a b = (dt_micros a - dt_micros b) div 86400000000"

definition astimezone_utc :: "(datetime \<Rightarrow> int) \<Rightarrow> datetime \<Rightarrow> error + datetime" where
  \<comment> \<open>\<^verbatim>\<open>d.replace(tzinfo=tz).astimezone(UTC)\<close>, \<open>tz d\<close> being the UTC offset in seconds of
      the wall time \<open>d\<close>: the offset is subtracted; the result must be in range.\<close>
  "astimezone_utc tz d =
     (let total = ordinal d * 86400 + int (hour d) * 3600 + int (minute d) * 60
                    + int (second d) - tz d;
          day = total div 86400;
          r = total mod 86400
      in if 0 < day \<and> day \<le> MAXORDINAL
         then Inr \<lparr>ordinal = day, hour = nat (r div 3600), minute = nat (r mod 3600 div 60),
                   second = nat (r mod 60), microsecond = microsecond d\<rparr>
         else Inl OverflowError)"

definition pad2 :: "int \<Rightarrow> string" where
  "pad2 n = [''0123456789'' ! nat (n div 10 mod 10), ''0123456789'' ! nat (n mod 10)]"

definition pad4 :: "int \<Rightarrow> string" where
  "pad4 n = pad2 (n div 100) @ pad2 (n mod 100)"

definition strftime :: "datetime \<Rightarrow> string" where
  \<comment> \<open>\<^verbatim>\<open>d.strftime("%Y-%m-%dT%H:%M:%SZ")\<close>\<close>
  "strftime d =
     (case ord2ymd (ordinal d) of
        (y, m, dd) \<Rightarrow>
          pad4 y @ ''-'' @ pad2 m @ ''-'' @ pad2 dd @ ''T'' @ pad2 (int (hour d)) @ '':''
            @ pad2 (int (minute d)) @ '':'' @ pad2 (int (second d)) @ ''Z'')"

text \<open>
  \<^verbatim>\<open>datetime.strptime(s, "%Y-%m-%d")\<close>. The format is matched as the regular expression
  that \<^verbatim>\<open>_strptime\<close> builds: four digits, a month \<^verbatim>\<open>1[0-2]|0[1-9]|[1-9]\<close>, a day
  \<^verbatim>\<open>3[01]|[12]\d|0[1-9]|[1-9]| [1-9]\<close>, the alternatives tried in this order, and nothing
  may remain after the day. Year 0 and a day beyond the month's length are rejected.
  Every failure is a \<^verbatim>\<open>ValueError\<close>.
\<close>

definition in_range :: "char \<Rightarrow> int \<Rightarrow> int \<Rightarrow> bool" where
  "in_range c lo hi = (case digit_val c of None \<Rightarrow> False | Some v \<Rightarrow> lo \<le> v \<and> v \<le> hi)"

fun parse_month :: "string \<Rightarrow> (int \<times> string) option" where
  "parse_month (a # b # r) =
     (if a = CHR ''1'' \<and> in_range b 0 2 then Some (10 + dv b, r)
      else if a = CHR ''0'' \<and> in_range b 1 9 then Some (dv b, r)
      else if in_range a 1 9 then Some (dv a, b # r)
      else None)"
| "parse_month [a] = (if in_range a 1 9 then Some (dv a, []) else None)"
| "parse_month [] = None"

fun parse_day :: "string \<Rightarrow> (int \<times> string) option" where
  "parse_day (a # b # r) =
     (if a = CHR ''3'' \<and> in_range b 0 1 then Some (30 + dv b, r)
      else if in_range a 1 2 \<and> is_digit b then Some (10 * dv a + dv b, r)
      else if a = CHR ''0'' \<and> in_range b 1 9 then Some (dv b, r)
      else if in_range a 1 9 then Some (dv a, b # r)
      else if a = CHR '' '' \<and> in_range b 1 9 then Some (dv b, r)
      else None)"
| "parse_day [a] = (if in_range a 1 9 then Some (dv a, []) else None)"
| "parse_day [] = None"

definition midnight :: "int \<Rightarrow> datetime" where
  "midnight n = \<lparr>ordinal = n, hour = 0, minute = 0, second = 0, microsecond = 0\<rparr>"

definition strptime :: "string \<Rightarrow> error + datetime" where
  "strptime s =
     (if length s < 4 \<or> \<not> list_all is_digit (take 4 s) then Inl ValueError
      else
        let y = digits_val (take 4 s) in
        case drop 4 s of
          [] \<Rightarrow> Inl ValueError
        | c # r \<Rightarrow>
            if c \<noteq> CHR ''-'' then Inl ValueError
            else
              (case parse_month r of
                 None \<Rightarrow> Inl ValueError
               | Some (m, r1) \<Rightarrow>
                   (case r1 of
                      [] \<Rightarrow> Inl ValueError
                    | c1 # r2 \<Rightarrow>
                        if c1 \<noteq> CHR ''-'' then Inl ValueError
                        else
                          (case parse_day r2 of
                             None \<Rightarrow> Inl ValueError
                           | Some (d, r3) \<Rightarrow>
                               if r3 \<noteq> [] then Inl ValueError
                               else if y < 1 \<or> days_in_month y m < d then Inl ValueError
                               else Inr (midnight (ymd2ord y m d))))))"

subsection \<open>The transport\<close>

text \<open>
  A request is the URL and the query parameters, in the order the dictionary holds them.
  A reply is a response (status code, \<^verbatim>\<open>Retry-After\<close> header if present, decoded JSON body
  if the body is JSON) or a failure of the transport itself (\<^verbatim>\<open>client.get\<close> raising).
\<close>

datatype pval = PNone | PStr string | PInt int

record request =
  url :: string
  params :: "(string \<times> pval) list"

datatype 'a reply =
    Response (status_code: int) (retry_after: "string option") (json: "'a option")
  | Failure

record net =
  sent :: "request list"
  slept :: "rat list"

definition net0 :: net where
  "net0 = \<lparr>sent = [], slept = []\<rparr>"

record client =
  api_key :: string
  api_secret :: string

definition BASE_URL :: string where
  "BASE_URL = ''https://api.bookeo.com/v2''"

subsection \<open>\<^verbatim>\<open>BookeoClient._request\<close>\<close>

text \<open>
  \<open>get_loop\<close> is the \<^verbatim>\<open>while True\<close> of \<^verbatim>\<open>_request\<close>: one \<^verbatim>\<open>client.get\<close> per round. A 429
  sleeps for \<^verbatim>\<open>int(response.headers.get("Retry-After", 60))\<close> and goes round again;
  \<^verbatim>\<open>raise_for_status\<close> raises on every status outside 200..299; \<^verbatim>\<open>response.json()\<close>
  raises when the body does not decode.
\<close>

definition retry_after_seconds :: "string option \<Rightarrow> error + int" where
  \<comment> \<open>\<^verbatim>\<open>int(response.headers.get("Retry-After", 60))\<close>\<close>
  "retry_after_seconds ra = (case ra of None \<Rightarrow> Inr 60 | Some h \<Rightarrow> py_int h)"

definition checked_json :: "int \<Rightarrow> 'a option \<Rightarrow> error + 'a" where
  \<comment> \<open>\<^verbatim>\<open>response.raise_for_status(); return response.json()\<close>\<close>
  "checked_json code body =
     (if 200 \<le> code \<and> code < 300
      then (case body of None \<Rightarrow> Inl JSONDecodeError | Some b \<Rightarrow> Inr b)
      else Inl (HTTPStatusError code))"

partial_function (option) get_loop ::
  "(nat \<Rightarrow> 'a reply) \<Rightarrow> request \<Rightarrow> net \<Rightarrow> ((error + 'a) \<times> net) option"
where
  "get_loop srv rq s =
     (let s1 = s\<lparr>sent := sent s @ [rq]\<rparr> in
      case srv (length (sent s)) of
        Failure \<Rightarrow> Some (Inl TransportError, s1)
      | Response code ra body \<Rightarrow>
          if code = 429 then
            (case retry_after_seconds ra of
               Inl e \<Rightarrow> Some (Inl e, s1)
             | Inr retry \<Rightarrow> get_loop srv rq (s1\<lparr>slept := slept s1 @ [of_int retry]\<rparr>))
          else Some (checked_json code body, s1))"

definition finish :: "'a reply \<Rightarrow> error + 'a" where
  \<comment> \<open>how \<^verbatim>\<open>_request\<close> ends on a reply that is not a 429\<close>
  "finish r =
     (case r of
        Failure \<Rightarrow> Inl TransportError
      | Response code ra body \<Rightarrow> checked_json code body)"


definition not_429 :: "'a reply \<Rightarrow> bool" where
  "not_429 r = (case r of Failure \<Rightarrow> True | Response code ra body \<Rightarrow> code \<noteq> 429)"

definition signed :: "client \<Rightarrow> string \<Rightarrow> (string \<times> pval) list \<Rightarrow> request" where
  \<comment> \<open>the URL and the parameters that \<^verbatim>\<open>_request\<close> passes to \<^verbatim>\<open>client.get\<close>\<close>
  "signed c endpoint ps =
     \<lparr>url = BASE_URL @ endpoint,
      params = ps @ [(''apiKey'', PStr (api_key c)), (''secretKey'', PStr (api_secret c))]\<rparr>"

definition request :: "client \<Rightarrow> (nat \<Rightarrow> 'a reply) \<Rightarrow> string \<Rightarrow> (string \<times> pval) list \<Rightarrow> net
    \<Rightarrow> ((error + 'a) \<times> net) option" where
  \<comment> \<open>\<^verbatim>\<open>_request(endpoint, params)\<close>\<close>
  "request c srv endpoint ps s = get_loop srv (signed c endpoint ps) s"

definition success :: "'a reply \<Rightarrow> 'a \<Rightarrow> bool" where
  \<comment> \<open>a response with a status in 200..299 whose body decodes to \<open>b\<close>\<close>
  "success r b =
     (case r of
        Failure \<Rightarrow> False
      | Response code ra body \<Rightarrow> 200 \<le> code \<and> code < 300 \<and> body = Some b)"

subsection \<open>Documents of the upstream service\<close>

text \<open>
  Each record is a JSON object, each field a key of it (\<open>b_startTime\<close> is the key
  \<^verbatim>\<open>startTime\<close> of a booking; the prefix tells the objects apart). \<open>json\<close> holds the
  values that the code passes on without looking into them.
\<close>

datatype json =
    JNull
  | JBool bool
  | JNum int
  | JStr string
  | JArr "json list"
  | JObj "(string \<times> json) list"

record money =
  m_amount :: "string option"
  m_currency :: "string option"

record phone =
  ph_number :: "string option"

record customer_block =
  c_firstName :: "string option"
  c_lastName :: "string option"
  c_emailAddress :: "string option"
  c_phoneNumbers :: "phone list option"

record people =
  n_number :: "int option"

record participants_block =
  p_numbers :: "people list option"

record price_block =
  pr_totalGross :: "money option"
  pr_totalPaid :: "money option"
  pr_balanceDue :: "money option"

record booking =
  b_bookingNumber :: "string option"
  b_startTime :: "string option"
  b_endTime :: "string option"
  b_productName :: "string option"
  b_productId :: "string option"
  b_customer :: "customer_block option"
  b_participants :: "participants_block option"
  b_price :: "price_block option"
  b_priceAdjustments :: "json list option"
  b_creationTime :: "string option"
  b_source :: "json option"

record payment =
  pay_gatewayName :: "string option"
  pay_amount :: "money option"
  pay_paymentMethod :: "string option"
  pay_reason :: "string option"
  pay_agent :: "string option"
  pay_receivedTime :: "string option"

record paging =
  pg_nextPageURL :: "string option"
  pg_pageNavigationToken :: "string option"
  pg_currentPage :: "int option"

record info =
  i_paging :: "paging option"

record 'a envelope =
  e_data :: "'a list option"
  e_info :: "info option"

definition get :: "'a option \<Rightarrow> 'a \<Rightarrow> 'a" where
  \<comment> \<open>\<^verbatim>\<open>d.get(key, default)\<close>, the first argument being the field of the key\<close>
  "get fld dflt = (case fld of None \<Rightarrow> dflt | Some v \<Rightarrow> v)"

definition truthy :: "string option \<Rightarrow> bool" where
  \<comment> \<open>the truth value of \<^verbatim>\<open>d.get(key)\<close> for a string-valued key\<close>
  "truthy fld = (case fld of None \<Rightarrow> False | Some v \<Rightarrow> v \<noteq> [])"

definition no_money :: money where
  "no_money = \<lparr>m_amount = None, m_currency = None\<rparr>"

definition no_customer :: customer_block where
  "no_customer =
     \<lparr>c_firstName = None, c_lastName = None, c_emailAddress = None, c_phoneNumbers = None\<rparr>"

definition no_participants :: participants_block where
  "no_participants = \<lparr>p_numbers = None\<rparr>"

definition no_price :: price_block where
  "no_price = \<lparr>pr_totalGross = None, pr_totalPaid = None, pr_balanceDue = None\<rparr>"

definition no_paging :: paging where
  "no_paging = \<lparr>pg_nextPageURL = None, pg_pageNavigationToken = None, pg_currentPage = None\<rparr>"

definition no_info :: info where
  "no_info = \<lparr>i_paging = None\<rparr>"

subsection \<open>\<^verbatim>\<open>BookeoClient\<close>: the fetch operations\<close>

definition client_get_booking ::
  "client \<Rightarrow> (nat \<Rightarrow> booking reply) \<Rightarrow> string \<Rightarrow> net \<Rightarrow> ((error + booking) \<times> net) option" where
  "client_get_booking c srv booking_number s =
     request c srv (''/bookings/'' @ booking_number) [(''expandCustomer'', PStr ''true'')] s"

definition client_get_booking_payments ::
  "client \<Rightarrow> (nat \<Rightarrow> payment envelope reply) \<Rightarrow> string \<Rightarrow> net
    \<Rightarrow> ((error + payment list) \<times> net) option" where
  "client_get_booking_payments c srv booking_number s =
     do {
       (r, s') \<leftarrow> request c srv (''/bookings/'' @ booking_number @ ''/payments'') [] s;
       Some (case r of Inl e \<Rightarrow> Inl e | Inr data \<Rightarrow> Inr (get (e_data data) []), s')
     }"

definition opt_pval :: "('a \<Rightarrow> pval) \<Rightarrow> 'a option \<Rightarrow> pval" where
  \<comment> \<open>a Python value that may be \<^verbatim>\<open>None\<close>, as a parameter value\<close>
  "opt_pval f v = (case v of None \<Rightarrow> PNone | Some x \<Rightarrow> f x)"

definition str_lower_bool :: "bool \<Rightarrow> string" where
  \<comment> \<open>\<^verbatim>\<open>str(b).lower()\<close>\<close>
  "str_lower_bool b = (if b then ''true'' else ''false'')"

definition search_params ::
  "string \<Rightarrow> string \<Rightarrow> bool \<Rightarrow> bool \<Rightarrow> string option \<Rightarrow> int option \<Rightarrow> (string \<times> pval) list" where
  \<comment> \<open>the dictionary \<^verbatim>\<open>params\<close> of one round of the pagination loop; \<^verbatim>\<open>if page_token:\<close>
      adds the cursor\<close>
  "search_params start_s end_s expand_customer include_canceled page_token page_number =
     [(''startTime'', PStr start_s),
      (''endTime'', PStr end_s),
      (''itemsPerPage'', PInt 100),
      (''expandCustomer'', PStr (str_lower_bool expand_customer)),
      (''includeCanceled'', PStr (str_lower_bool include_canceled))]
     @ (if truthy page_token
        then [(''pageNavigationToken'', opt_pval PStr page_token),
              (''pageNumber'', opt_pval PInt page_number)]
        else [])"

definition paging_of :: "'b envelope \<Rightarrow> paging" where
  \<comment> \<open>\<^verbatim>\<open>data.get("info", {}).get("paging", {})\<close>\<close>
  "paging_of data = get (i_paging (get (e_info data) no_info)) no_paging"

text \<open>
  \<open>page_loop\<close> is the inner \<^verbatim>\<open>while True\<close> of \<^verbatim>\<open>search_bookings\<close>, for one chunk whose
  bounds are already formatted. \<open>acc\<close> is everything yielded so far. The generator yields
  the bookings of a page before it looks at the paging block, and an exception ends it:
  the result is how the loop ended, what it had yielded, and the transport state.
\<close>

partial_function (option) page_loop ::
  "client \<Rightarrow> (nat \<Rightarrow> 'b envelope reply) \<Rightarrow> string \<Rightarrow> string \<Rightarrow> bool \<Rightarrow> bool
    \<Rightarrow> string option \<Rightarrow> int option \<Rightarrow> 'b list \<Rightarrow> net
    \<Rightarrow> ((error + unit) \<times> 'b list \<times> net) option"
where
  "page_loop c srv start_s end_s expand_customer include_canceled page_token page_number acc s =
     (let ps = search_params start_s end_s expand_customer include_canceled page_token page_number
      in do {
        (r, s') \<leftarrow> request c srv ''/bookings'' ps s;
        case r of
          Inl e \<Rightarrow> Some (Inl e, acc, s')
        | Inr data \<Rightarrow>
            let acc' = acc @ get (e_data data) [];
                pg = paging_of data
            in if truthy (pg_nextPageURL pg)
               then page_loop c srv start_s end_s expand_customer include_canceled
                      (pg_pageNavigationToken pg) (Some (get (pg_currentPage pg) 1 + 1)) acc' s'
               else Some (Inr (), acc', s')
      })"

text \<open>
  The bounds of a chunk as they are sent: \<^verbatim>\<open>current_start\<close> at 00:00:00 and \<^verbatim>\<open>chunk_end\<close> at
  23:59:59, both read as wall time of the zone, converted to UTC and formatted (the
  microseconds stay as they are, and are not printed).
\<close>

definition chunk_bounds ::
  "(datetime \<Rightarrow> int) \<Rightarrow> datetime \<Rightarrow> datetime \<Rightarrow> error + string \<times> string" where
  "chunk_bounds tz current_start chunk_end =
     (let start_local = current_start\<lparr>hour := 0, minute := 0, second := 0\<rparr>;
          end_local = chunk_end\<lparr>hour := 23, minute := 59, second := 59\<rparr>
      in case astimezone_utc tz start_local of
           Inl e \<Rightarrow> Inl e
         | Inr start_utc \<Rightarrow>
             (case astimezone_utc tz end_local of
                Inl e \<Rightarrow> Inl e
              | Inr end_utc \<Rightarrow> Inr (strftime start_utc, strftime end_utc)))"

text \<open>
  \<open>chunk_loop\<close> is the outer \<^verbatim>\<open>while current_start < end_time\<close>, its first argument after
  the flags being \<^verbatim>\<open>current_start\<close>. After the pagination of a chunk it sleeps for half a
  second.
\<close>

partial_function (option) chunk_loop ::
  "(datetime \<Rightarrow> int) \<Rightarrow> client \<Rightarrow> (nat \<Rightarrow> 'b envelope reply) \<Rightarrow> bool \<Rightarrow> bool
    \<Rightarrow> datetime \<Rightarrow> datetime \<Rightarrow> 'b list \<Rightarrow> net
    \<Rightarrow> ((error + unit) \<times> 'b list \<times> net) option"
where
  "chunk_loop tz c srv expand_customer include_canceled current_start end_time acc s =
     (if dt_less current_start end_time then
        (case add_days current_start 30 of
           Inl e \<Rightarrow> Some (Inl e, acc, s)
         | Inr nxt \<Rightarrow>
             let chunk_end = dt_min nxt end_time in
             (case chunk_bounds tz current_start chunk_end of
                Inl e \<Rightarrow> Some (Inl e, acc, s)
              | Inr (start_s, end_s) \<Rightarrow>
                  do {
                    (r, acc', s') \<leftarrow>
                      page_loop c srv start_s end_s expand_customer include_canceled
                        None None acc s;
                    case r of
                      Inl e \<Rightarrow> Some (Inl e, acc', s')
                    | Inr u \<Rightarrow>
                        chunk_loop tz c srv expand_customer include_canceled chunk_end
                          end_time acc' (s'\<lparr>slept := slept s' @ [1 / 2]\<rparr>)
                  }))
      else Some (Inr (), acc, s))"

definition search_bookings ::
  "(datetime \<Rightarrow> int) \<Rightarrow> client \<Rightarrow> (nat \<Rightarrow> 'b envelope reply) \<Rightarrow> datetime \<Rightarrow> datetime
    \<Rightarrow> bool \<Rightarrow> bool \<Rightarrow> net \<Rightarrow> ((error + unit) \<times> 'b list \<times> net) option" where
  "search_bookings tz c srv start_time end_time expand_customer include_canceled s =
     chunk_loop tz c srv expand_customer include_canceled start_time end_time [] s"

text \<open>
  The chunks alone: the pairs \<^verbatim>\<open>(current_start, chunk_end)\<close> that the outer loop goes
  through when every chunk's pagination returns, or the \<^verbatim>\<open>OverflowError\<close> of
  \<^verbatim>\<open>current_start + timedelta(days=30)\<close>.
\<close>

function chunks :: "datetime \<Rightarrow> datetime \<Rightarrow> error + (datetime \<times> datetime) list" where
  "chunks current_start end_time =
     (if dt_less current_start end_time then
        (case add_days current_start 30 of
           Inl e \<Rightarrow> Inl e
         | Inr nxt \<Rightarrow>
             let chunk_end = dt_min nxt end_time in
             (case chunks chunk_end end_time of
                Inl e \<Rightarrow> Inl e
              | Inr cs \<Rightarrow> Inr ((current_start, chunk_end) # cs)))
      else Inr [])"
  by pat_completeness auto

termination chunks
proof (relation "measure (\<lambda>(cur, fin). if dt_less cur fin then nat (ordinal fin - ordinal cur + 2) else 0)")
  show "wf (measure (\<lambda>(cur, fin). if dt_less cur fin then nat (ordinal fin - ordinal cur + 2) else 0))"
    by simp
next
  fix current_start end_time :: datetime and nxt chunk_end
  assume less: "dt_less current_start end_time"
    and add: "add_days current_start 30 = Inr nxt"
    and ce: "chunk_end = dt_min nxt end_time"
  have o: "ordinal nxt = ordinal current_start + 30"
    using add by (auto simp: add_days_def split: if_splits)
  have le: "ordinal current_start \<le> ordinal end_time"
    using less by (auto simp: dt_less_def dt_key_def less_prod_def)
  show "((chunk_end, end_time), (current_start, end_time))
          \<in> measure (\<lambda>(cur, fin). if dt_less cur fin then nat (ordinal fin - ordinal cur + 2) else 0)"
  proof (cases "dt_less end_time nxt")
    case True
    then have "chunk_end = end_time" using ce by (simp add: dt_min_def)
    then show ?thesis using less le by (simp add: dt_less_def)
  next
    case False
    then have "chunk_end = nxt" using ce by (simp add: dt_min_def)
    then show ?thesis using less le o by simp
  qed
qed

subsection \<open>\<^verbatim>\<open>server.py\<close>: the formatting helpers\<close>

text \<open>
  What the tools return: a dictionary built from a literal is a record with the keys as
  fields. The keys of a booking summary carry the prefix \<open>out_\<close>, since the code has
  variables of the same names. The keys of the price dictionary carry the prefix
  \<open>price_\<close>, and \<^verbatim>\<open>booking_number\<close> and \<^verbatim>\<open>payments\<close> of the payment report the prefix
  \<open>report_\<close>, since two dictionaries have keys of these names. The key \<^verbatim>\<open>method\<close> of an
  analysed payment is the field \<open>payment_method\<close>.
\<close>

record customer_view =
  name :: string
  email :: string
  phone :: string

record price_view =
  price_total_gross :: money
  price_total_paid :: money
  price_balance_due :: money

record summary =
  out_booking_number :: "string option"
  out_start_time :: "string option"
  out_product_name :: "string option"
  out_customer :: customer_view
  out_participants :: int
  out_price :: price_view

record detail = summary +
  out_end_time :: "string option"
  out_product_id :: "string option"
  out_price_adjustments :: "json list"
  out_creation_time :: "string option"
  out_source :: json

record analysis =
  amount :: money
  payment_method :: string
  gateway :: string
  is_manual :: bool
  reason :: string
  agent :: string
  received_time :: string

record 'f report =
  report_booking_number :: string
  payment_count :: nat
  total_paid :: 'f
  currency :: string
  has_manual_payment :: bool
  has_stripe_payment :: bool
  payment_methods :: "string set"
  report_payments :: "analysis list"

text \<open>
  An element of the list that a search tool returns is \<^verbatim>\<open>{"error": message}\<close> or a
  booking summary. A lookup tool returns \<^verbatim>\<open>{"error": prefix + str(e)}\<close> for the exception
  \<open>e\<close> it caught, or its result.
\<close>

datatype entry = Error_entry string | Booking_entry summary

datatype 'a payload = Error_payload string error | Payload 'a

definition format_customer :: "booking \<Rightarrow> customer_view" where
  "format_customer booking =
     (let customer = get (b_customer booking) no_customer;
          phone_numbers = get (c_phoneNumbers customer) []
      in \<lparr>name = strip (get (c_firstName customer) '''' @ '' '' @ get (c_lastName customer) ''''),
          email = get (c_emailAddress customer) '''',
          phone = (case phone_numbers of [] \<Rightarrow> '''' | p # rest \<Rightarrow> get (ph_number p) '''')\<rparr>)"

definition format_price :: "booking \<Rightarrow> price_view" where
  "format_price booking =
     (let price = get (b_price booking) no_price
      in \<lparr>price_total_gross = get (pr_totalGross price) no_money,
          price_total_paid = get (pr_totalPaid price) no_money,
          price_balance_due = get (pr_balanceDue price) no_money\<rparr>)"

definition format_participants :: "booking \<Rightarrow> int" where
  "format_participants booking =
     (let participants = get (b_participants booking) no_participants;
          numbers = get (p_numbers participants) []
      in sum_list (map (\<lambda>p. get (n_number p) 0) numbers))"

definition analyze_payment :: "payment \<Rightarrow> analysis" where
  "analyze_payment payment =
     (let gw = get (pay_gatewayName payment) ''''
      in \<lparr>amount = get (pay_amount payment) no_money,
          payment_method = get (pay_paymentMethod payment) ''unknown'',
          gateway = (if gw \<noteq> [] then gw else ''manual''),
          is_manual = (gw = []),
          reason = get (pay_reason payment) '''',
          agent = get (pay_agent payment) '''',
          received_time = get (pay_receivedTime payment) ''''\<rparr>)"

definition summarize :: "booking \<Rightarrow> summary" where
  \<comment> \<open>the dictionary that both search tools append for a booking\<close>
  "summarize booking =
     \<lparr>out_booking_number = b_bookingNumber booking,
      out_start_time = b_startTime booking,
      out_product_name = b_productName booking,
      out_customer = format_customer booking,
      out_participants = format_participants booking,
      out_price = format_price booking\<rparr>"

subsection \<open>\<^verbatim>\<open>server.py\<close>: the four tools\<close>

text \<open>
  A tool takes the transport state and returns what it returned or raised, with the
  state it left. \<open>now\<close> is \<^verbatim>\<open>datetime.now()\<close>.
\<close>

definition matches :: "string \<Rightarrow> string \<Rightarrow> booking \<Rightarrow> bool" where
  \<comment> \<open>\<^verbatim>\<open>name_match or email_match\<close> in the loop of \<^verbatim>\<open>search_bookings_by_customer\<close>\<close>
  "matches customer_name customer_email booking =
     (let customer = format_customer booking;
          name_lower = lower customer_name;
          email_lower = lower customer_email;
          name_match = (name_lower \<noteq> [] \<and> is_in name_lower (lower (name customer)));
          email_match = (email_lower \<noteq> [] \<and> is_in email_lower (lower (email customer)))
      in name_match \<or> email_match)"

definition search_bookings_by_customer ::
  "(datetime \<Rightarrow> int) \<Rightarrow> datetime \<Rightarrow> client \<Rightarrow> (nat \<Rightarrow> booking envelope reply)
    \<Rightarrow> string \<Rightarrow> string \<Rightarrow> int \<Rightarrow> net \<Rightarrow> ((error + entry list) \<times> net) option" where
  "search_bookings_by_customer tz now c srv customer_name customer_email days_back s =
     (if customer_name = [] \<and> customer_email = []
      then Some (Inr [Error_entry ''Must provide either customer_name or customer_email''], s)
      else
        let days_back = min days_back 365;
            end_time = now
        in case add_days end_time (- days_back) of
             Inl e \<Rightarrow> Some (Inl e, s)
           | Inr start_time \<Rightarrow>
               do {
                 (r, bookings, s') \<leftarrow> search_bookings tz c srv start_time end_time True False s;
                 case r of
                   Inl e \<Rightarrow> Some (Inl e, s')
                 | Inr u \<Rightarrow>
                     Some (Inr (map (\<lambda>b. Booking_entry (summarize b))
                                  (filter (matches customer_name customer_email) bookings)), s')
               })"

definition get_booking ::
  "client \<Rightarrow> (nat \<Rightarrow> booking reply) \<Rightarrow> string \<Rightarrow> net
    \<Rightarrow> ((error + detail payload) \<times> net) option" where
  "get_booking c srv booking_number s =
     do {
       (r, s') \<leftarrow> client_get_booking c srv booking_number s;
       case r of
         Inl e \<Rightarrow> Some (Inr (Error_payload ''Booking not found or API error: '' e), s')
       | Inr booking \<Rightarrow>
           Some (Inr (Payload
             \<lparr>out_booking_number = b_bookingNumber booking,
              out_start_time = b_startTime booking,
              out_product_name = b_productName booking,
              out_customer = format_customer booking,
              out_participants = format_participants booking,
              out_price = format_price booking,
              out_end_time = b_endTime booking,
              out_product_id = b_productId booking,
              out_price_adjustments = get (b_priceAdjustments booking) [],
              out_creation_time = b_creationTime booking,
              out_source = get (b_source booking) (JObj [])\<rparr>), s')
     }"

definition search_bookings_by_date ::
  "(datetime \<Rightarrow> int) \<Rightarrow> client \<Rightarrow> (nat \<Rightarrow> booking envelope reply)
    \<Rightarrow> string \<Rightarrow> string \<Rightarrow> bool \<Rightarrow> net \<Rightarrow> ((error + entry list) \<times> net) option" where
  "search_bookings_by_date tz c srv start_date end_date include_canceled s =
     (case (case strptime start_date of
              Inl e \<Rightarrow> Inl e
            | Inr start_time \<Rightarrow>
                (case strptime end_date of
                   Inl e \<Rightarrow> Inl e
                 | Inr end_day \<Rightarrow>
                     (case add_days end_day 1 of
                        Inl e \<Rightarrow> Inl e
                      | Inr end_time \<Rightarrow> Inr (start_time, end_time)))) of
        Inl e \<Rightarrow>
          if e = ValueError
          then Some (Inr [Error_entry ''Invalid date format. Use YYYY-MM-DD''], s)
          else Some (Inl e, s)
      | Inr (start_time, end_time) \<Rightarrow>
          if 366 < diff_days end_time start_time
          then Some (Inr [Error_entry ''Date range cannot exceed 365 days''], s)
          else
            do {
              (r, bookings, s') \<leftarrow>
                search_bookings tz c srv start_time end_time True include_canceled s;
              case r of
                Inl e \<Rightarrow> Some (Inl e, s')
              | Inr u \<Rightarrow> Some (Inr (map (\<lambda>b. Booking_entry (summarize b)) bookings), s')
            })"

text \<open>
  Python's floats: \<open>float_of_str\<close> is \<^verbatim>\<open>float(s)\<close> on a string (\<open>None\<close> when it raises
  \<^verbatim>\<open>ValueError\<close>), \<open>float_of_int\<close> is \<^verbatim>\<open>float(n)\<close>, and \<open>float_sum\<close> is the built-in
  \<^verbatim>\<open>sum\<close> over a sequence of floats (the integer 0 for the empty one).
\<close>

record 'f floats =
  float_of_str :: "string \<Rightarrow> 'f option"
  float_of_int :: "int \<Rightarrow> 'f"
  float_sum :: "'f list \<Rightarrow> 'f"

definition paid_amount :: "'f floats \<Rightarrow> analysis \<Rightarrow> error + 'f" where
  \<comment> \<open>\<^verbatim>\<open>float(p["amount"].get("amount", 0) or 0)\<close>\<close>
  "paid_amount fl p =
     (case m_amount (amount p) of
        None \<Rightarrow> Inr (float_of_int fl 0)
      | Some a \<Rightarrow>
          if a = [] then Inr (float_of_int fl 0)
          else (case float_of_str fl a of None \<Rightarrow> Inl ValueError | Some x \<Rightarrow> Inr x))"

fun paid_amounts :: "'f floats \<Rightarrow> analysis list \<Rightarrow> error + 'f list" where
  "paid_amounts fl [] = Inr []"
| "paid_amounts fl (p # ps) =
     (case paid_amount fl p of
        Inl e \<Rightarrow> Inl e
      | Inr x \<Rightarrow> (case paid_amounts fl ps of Inl e \<Rightarrow> Inl e | Inr xs \<Rightarrow> Inr (x # xs)))"

definition get_booking_payments ::
  "'f floats \<Rightarrow> client \<Rightarrow> (nat \<Rightarrow> payment envelope reply) \<Rightarrow> string \<Rightarrow> net
    \<Rightarrow> ((error + 'f report payload) \<times> net) option" where
  "get_booking_payments fl c srv booking_number s =
     do {
       (r, s') \<leftarrow> client_get_booking_payments c srv booking_number s;
       case r of
         Inl e \<Rightarrow> Some (Inr (Error_payload ''Could not fetch payments: '' e), s')
       | Inr payments \<Rightarrow>
           let analyzed_payments = map analyze_payment payments in
           (case paid_amounts fl analyzed_payments of
              Inl e \<Rightarrow> Some (Inr (Error_payload ''Could not fetch payments: '' e), s')
            | Inr amounts \<Rightarrow>
                Some (Inr (Payload
                  \<lparr>report_booking_number = booking_number,
                   payment_count = length payments,
                   total_paid = float_sum fl amounts,
                   currency =
                     (case analyzed_payments of
                        [] \<Rightarrow> ''CAD''
                      | p # rest \<Rightarrow> get (m_currency (amount p)) ''CAD''),
                   has_manual_payment = list_ex is_manual analyzed_payments,
                   has_stripe_payment =
                     list_ex (\<lambda>p. is_in ''stripe'' (lower (gateway p)))
                       (filter (\<lambda>p. gateway p \<noteq> []) analyzed_payments),
                   payment_methods = set (map payment_method analyzed_payments),
                   report_payments = analyzed_payments\<rparr>), s'))
     }"

section \<open>Properties\<close>

subsection \<open>The retry loop\<close>

lemma get_loop_done:
  assumes "not_429 (srv (length (sent s)))"
  shows "get_loop srv rq s = Some (finish (srv (length (sent s))), s\<lparr>sent := sent s @ [rq]\<rparr>)"
  using assms
  by (subst get_loop.simps) (simp add: not_429_def finish_def Let_def split: reply.splits)






lemma success_not_429: "success r b \<Longrightarrow> not_429 r"
  by (auto simp: success_def not_429_def split: reply.splits)

lemma success_finish: "success r b \<Longrightarrow> finish r = Inr b"
  by (auto simp: success_def finish_def checked_json_def split: reply.splits)

lemma request_success:
  assumes "success (srv (length (sent s))) b"
  shows "request c srv endpoint ps s = Some (Inr b, s\<lparr>sent := sent s @ [signed c endpoint ps]\<rparr>)"
  using assms by (simp add: request_def get_loop_done success_not_429 success_finish)

lemma request_error:
  assumes "not_429 (srv (length (sent s)))" and "finish (srv (length (sent s))) = Inl e"
  shows "request c srv endpoint ps s = Some (Inl e, s\<lparr>sent := sent s @ [signed c endpoint ps]\<rparr>)"
  using assms by (simp add: request_def get_loop_done)


definition a_client :: client where
  "a_client = \<lparr>api_key = ''key'', api_secret = ''secret''\<rparr>"







subsection \<open>The pagination loop\<close>

lemma page_loop_step:
  assumes "success (srv (length (sent s))) b"
  shows "page_loop c srv st en ec ic tok num acc s =
           (if truthy (pg_nextPageURL (paging_of b))
            then page_loop c srv st en ec ic (pg_pageNavigationToken (paging_of b))
                   (Some (get (pg_currentPage (paging_of b)) 1 + 1)) (acc @ get (e_data b) [])
                   (s\<lparr>sent := sent s @ [signed c ''/bookings'' (search_params st en ec ic tok num)]\<rparr>)
            else Some (Inr (), acc @ get (e_data b) [],
                   s\<lparr>sent := sent s @ [signed c ''/bookings'' (search_params st en ec ic tok num)]\<rparr>))"
  using assms by (subst page_loop.simps) (simp add: request_success Let_def)

lemma page_loop_error:
  assumes "not_429 (srv (length (sent s)))" and "finish (srv (length (sent s))) = Inl e"
  shows "page_loop c srv st en ec ic tok num acc s =
           Some (Inl e, acc,
                 s\<lparr>sent := sent s @ [signed c ''/bookings'' (search_params st en ec ic tok num)]\<rparr>)"
  using assms by (subst page_loop.simps) (simp add: request_error Let_def)

text \<open>
  The requests of one chunk, for any cursor the loop starts from: every page with a next
  page indicator is followed by a request whose cursor is read from that page.
\<close>

lemma page_loop_pages:
  assumes "\<forall>i < length front. success (srv (length (sent s) + i)) (front ! i)"
    and "success (srv (length (sent s) + length front)) final"
    and "\<forall>b \<in> set front. truthy (pg_nextPageURL (paging_of b))"
    and "\<not> truthy (pg_nextPageURL (paging_of final))"
  shows "page_loop c srv st en ec ic tok num acc s =
           Some (Inr (), acc @ concat (map (\<lambda>b. get (e_data b) []) (front @ [final])),
                 s\<lparr>sent := sent s
                     @ signed c ''/bookings'' (search_params st en ec ic tok num)
                     # map (\<lambda>b. signed c ''/bookings''
                                  (search_params st en ec ic (pg_pageNavigationToken (paging_of b))
                                     (Some (get (pg_currentPage (paging_of b)) 1 + 1))))
                         front\<rparr>)"
  using assms
proof (induction front arbitrary: s acc tok num)
  case Nil
  then show ?case by (simp add: page_loop_step)
next
  case (Cons b front)
  let ?s = "s\<lparr>sent := sent s @ [signed c ''/bookings'' (search_params st en ec ic tok num)]\<rparr>"
  have first: "success (srv (length (sent s))) b"
    using Cons.prems(1) by force
  have more: "truthy (pg_nextPageURL (paging_of b))"
    using Cons.prems(3) by simp
  have rest: "\<forall>i < length front. success (srv (length (sent ?s) + i)) (front ! i)"
    using Cons.prems(1) by force
  have last: "success (srv (length (sent ?s) + length front)) final"
    using Cons.prems(2) by simp
  have nexts: "\<forall>b \<in> set front. truthy (pg_nextPageURL (paging_of b))"
    using Cons.prems(3) by simp
  have "page_loop c srv st en ec ic tok num acc s =
          page_loop c srv st en ec ic (pg_pageNavigationToken (paging_of b))
            (Some (get (pg_currentPage (paging_of b)) 1 + 1)) (acc @ get (e_data b) []) ?s"
    using more first by (simp add: page_loop_step[where b = b])
  also have "\<dots> =
      Some (Inr (), (acc @ get (e_data b) []) @ concat (map (\<lambda>b. get (e_data b) []) (front @ [final])),
            ?s\<lparr>sent := sent ?s
                @ signed c ''/bookings''
                    (search_params st en ec ic (pg_pageNavigationToken (paging_of b))
                       (Some (get (pg_currentPage (paging_of b)) 1 + 1)))
                # map (\<lambda>b. signed c ''/bookings''
                             (search_params st en ec ic (pg_pageNavigationToken (paging_of b))
                                (Some (get (pg_currentPage (paging_of b)) 1 + 1))))
                    front\<rparr>)"
    using rest last nexts Cons.prems(4) by (rule Cons.IH)
  finally show ?case by simp
qed

lemma search_params_cursor:
  assumes "truthy tok"
  shows "search_params st en ec ic tok (Some n) =
           search_params st en ec ic None None
             @ [(''pageNavigationToken'', PStr (get tok [])), (''pageNumber'', PInt n)]"
  using assms by (cases tok) (simp_all add: search_params_def truthy_def opt_pval_def get_def)

text \<open>
  C3, as the code has it. Within one chunk, when every response but the last carries a
  non-empty \<^verbatim>\<open>nextPageURL\<close> and a non-empty \<^verbatim>\<open>pageNavigationToken\<close>, the loop yields the
  records of every page in page order, sends the first request without a cursor, follows
  each page but the last with a request that adds the page's token and
  \<^verbatim>\<open>currentPage + 1\<close> (2 when \<^verbatim>\<open>currentPage\<close> is absent), and stops after the one
  response without a next page: one request per response.
\<close>

theorem page_loop_follows_cursors:
  assumes "\<forall>i < length front. success (srv (length (sent s) + i)) (front ! i)"
    and "success (srv (length (sent s) + length front)) final"
    and "\<forall>b \<in> set front. truthy (pg_nextPageURL (paging_of b))
                           \<and> truthy (pg_pageNavigationToken (paging_of b))"
    and "\<not> truthy (pg_nextPageURL (paging_of final))"
  shows "page_loop c srv st en ec ic None None acc s =
           Some (Inr (), acc @ concat (map (\<lambda>b. get (e_data b) []) (front @ [final])),
                 s\<lparr>sent := sent s
                     @ signed c ''/bookings'' (search_params st en ec ic None None)
                     # map (\<lambda>b. signed c ''/bookings''
                                  (search_params st en ec ic None None
                                     @ [(''pageNavigationToken'',
                                           PStr (get (pg_pageNavigationToken (paging_of b)) [])),
                                        (''pageNumber'',
                                           PInt (get (pg_currentPage (paging_of b)) 1 + 1))]))
                         front\<rparr>)"
proof -
  have nexts: "\<forall>b \<in> set front. truthy (pg_nextPageURL (paging_of b))"
    using assms(3) by simp
  have same: "map (\<lambda>b. signed c ''/bookings''
                     (search_params st en ec ic (pg_pageNavigationToken (paging_of b))
                        (Some (get (pg_currentPage (paging_of b)) 1 + 1)))) front =
              map (\<lambda>b. signed c ''/bookings''
                     (search_params st en ec ic None None
                        @ [(''pageNavigationToken'',
                              PStr (get (pg_pageNavigationToken (paging_of b)) [])),
                           (''pageNumber'', PInt (get (pg_currentPage (paging_of b)) 1 + 1))]))
                front"
    using assms(3) by (intro map_cong refl) (simp add: search_params_cursor)
  show ?thesis
    using page_loop_pages[OF assms(1) assms(2) nexts assms(4), of c st en ec ic None None acc]
    by (simp only: same)
qed

definition page :: "nat list \<Rightarrow> string option \<Rightarrow> string option \<Rightarrow> int option \<Rightarrow> nat envelope" where
  "page items next_url token current =
     \<lparr>e_data = Some items,
      e_info = Some \<lparr>i_paging = Some \<lparr>pg_nextPageURL = next_url,
                                      pg_pageNavigationToken = token,
                                      pg_currentPage = current\<rparr>\<rparr>\<rparr>"

definition three_pages :: "nat \<Rightarrow> nat envelope reply" where
  "three_pages i =
     (if i = 0 then Response 200 None (Some (page [1, 2] (Some ''u2'') (Some ''tok'') (Some 1)))
      else if i = 1 then Response 200 None (Some (page [3] (Some ''u3'') (Some ''tok'') (Some 2)))
      else Response 200 None (Some (page [4] None (Some ''tok'') (Some 3))))"

definition no_token_pages :: "nat \<Rightarrow> nat envelope reply" where
  "no_token_pages i =
     (if i = 0 then Response 200 None (Some (page [1, 2] (Some ''u2'') None (Some 1)))
      else Response 200 None (Some (page [3] None None (Some 2))))"

lemmas page_simps =
  page_def paging_of_def get_def truthy_def success_def no_info_def no_paging_def

theorem page_loop_follows_cursors_witness:
  "page_loop a_client three_pages ''A'' ''B'' True False None None [] net0 =
     Some (Inr (), [1, 2, 3, 4],
           \<lparr>sent =
              [signed a_client ''/bookings'' (search_params ''A'' ''B'' True False None None),
               signed a_client ''/bookings''
                 (search_params ''A'' ''B'' True False None None
                    @ [(''pageNavigationToken'', PStr ''tok''), (''pageNumber'', PInt 2)]),
               signed a_client ''/bookings''
                 (search_params ''A'' ''B'' True False None None
                    @ [(''pageNavigationToken'', PStr ''tok''), (''pageNumber'', PInt 3)])],
            slept = []\<rparr>)"
proof -
  let ?front = "[page [1, 2] (Some ''u2'') (Some ''tok'') (Some 1),
                 page [3] (Some ''u3'') (Some ''tok'') (Some 2)]"
  let ?final = "page [4] None (Some ''tok'') (Some 3)"
  have a: "\<forall>i < length ?front. success (three_pages (length (sent net0) + i)) (?front ! i)"
    by (simp add: less_Suc_eq net0_def three_pages_def success_def)
  have b: "success (three_pages (length (sent net0) + length ?front)) ?final"
    by (simp add: net0_def three_pages_def success_def)
  have c: "\<forall>b \<in> set ?front. truthy (pg_nextPageURL (paging_of b))
                             \<and> truthy (pg_pageNavigationToken (paging_of b))"
    by (simp add: page_simps)
  have d: "\<not> truthy (pg_nextPageURL (paging_of ?final))"
    by (simp add: page_simps)
  show ?thesis
    using page_loop_follows_cursors[OF a b c d, of a_client "''A''" "''B''" True False "[]"]
    by (simp add: net0_def page_simps)
qed

text \<open>
  C3, as the claim has it, fails when a page announces a next page without a token: the
  variable \<^verbatim>\<open>page_token\<close> is then \<^verbatim>\<open>None\<close>, \<^verbatim>\<open>if page_token:\<close> skips both parameters, and the
  follow-up request is the first request again, with no page number 2.
\<close>

theorem page_loop_without_token_counterexample:
  "page_loop a_client no_token_pages ''A'' ''B'' True False None None [] net0 =
     Some (Inr (), [1, 2, 3],
           \<lparr>sent =
              [signed a_client ''/bookings'' (search_params ''A'' ''B'' True False None None),
               signed a_client ''/bookings'' (search_params ''A'' ''B'' True False None None)],
            slept = []\<rparr>)"
proof -
  let ?front = "[page [1, 2] (Some ''u2'') None (Some 1)]"
  let ?final = "page [3] None None (Some 2)"
  have a: "\<forall>i < length ?front. success (no_token_pages (length (sent net0) + i)) (?front ! i)"
    by (simp add: net0_def no_token_pages_def success_def)
  have b: "success (no_token_pages (length (sent net0) + length ?front)) ?final"
    by (simp add: net0_def no_token_pages_def success_def)
  have c: "\<forall>b \<in> set ?front. truthy (pg_nextPageURL (paging_of b))"
    by (simp add: page_simps)
  have d: "\<not> truthy (pg_nextPageURL (paging_of ?final))"
    by (simp add: page_simps)
  show ?thesis
    using page_loop_pages[OF a b c d, of a_client "''A''" "''B''" True False None None "[]"]
    by (simp add: net0_def page_simps search_params_def)
qed

subsection \<open>The chunks of a window\<close>











lemma chunks_stop: "\<not> dt_less a b \<Longrightarrow> chunks a b = Inr []"
  by simp




lemmas dt_simps =
  dt_less_def dt_key_def less_prod_def dt_min_def add_days_def MAXORDINAL_def midnight_def



subsection \<open>The chunking loop and the search tools\<close>

lemma chunk_loop_stop:
  assumes "\<not> dt_less current_start end_time"
  shows "chunk_loop tz c srv ec ic current_start end_time acc s = Some (Inr (), acc, s)"
  using assms by (subst chunk_loop.simps) simp



definition pacific_standard :: "datetime \<Rightarrow> int" where
  \<comment> \<open>UTC-8, the offset of America/Los_Angeles on every day of the examples (standard
      time, from the first Sunday of November to the second Sunday of March)\<close>
  "pacific_standard d = - 28800"


definition one_empty_page :: "nat \<Rightarrow> booking envelope reply" where
  "one_empty_page i = Response 200 None (Some \<lparr>e_data = Some [], e_info = None\<rparr>)"

definition server_error :: "nat \<Rightarrow> booking envelope reply" where
  "server_error i = Response 500 None None"



lemmas strptime_simps =
  strptime_def is_digit_def digit_val_def digits_val_def in_range_def dv_def
  ymd2ord_def days_before_year_def days_before_month_def days_in_month_def is_leap_def
  DAYS_IN_MONTH_def DAYS_BEFORE_MONTH_def



text \<open>
  C7. Without a name and without an email the tool returns the error entry at once, for
  every \<^verbatim>\<open>days_back\<close> and every transport, and the transport is left as it was.
\<close>

theorem no_filter_is_refused:
  "search_bookings_by_customer tz now c srv '''' '''' days_back s =
     Some (Inr [Error_entry ''Must provide either customer_name or customer_email''], s)"
  by (simp add: search_bookings_by_customer_def)

subsection \<open>One day, as \<^verbatim>\<open>search_bookings_by_date\<close> sends it\<close>

lemma one_day_window:
  "strptime ''2024-12-27'' = Inr (midnight 739247)"
  "add_days (midnight 739247) 1 = Inr (midnight 739248)"
  "diff_days (midnight 739248) (midnight 739247) = 1"
  by (simp_all add: strptime_simps dt_simps diff_days_def dt_micros_def)

lemma one_day_bounds:
  "astimezone_utc pacific_standard ((midnight 739247)\<lparr>hour := 0, minute := 0, second := 0\<rparr>) =
     Inr \<lparr>ordinal = 739247, hour = 8, minute = 0, second = 0, microsecond = 0\<rparr>"
  "astimezone_utc pacific_standard ((midnight 739248)\<lparr>hour := 23, minute := 59, second := 59\<rparr>) =
     Inr \<lparr>ordinal = 739249, hour = 7, minute = 59, second = 59, microsecond = 0\<rparr>"
  "strftime \<lparr>ordinal = 739247, hour = 8, minute = 0, second = 0, microsecond = 0\<rparr> =
     ''2024-12-27T08:00:00Z''"
  "strftime \<lparr>ordinal = 739249, hour = 7, minute = 59, second = 59, microsecond = 0\<rparr> =
     ''2024-12-29T07:59:59Z''"
  by (simp_all add: astimezone_utc_def pacific_standard_def midnight_def MAXORDINAL_def
      strftime_def ord2ymd_def pad2_def pad4_def Let_def DAYS_IN_MONTH_def DAYS_BEFORE_MONTH_def)

lemma one_day_chunk:
  "dt_less (midnight 739247) (midnight 739248)"
  "add_days (midnight 739247) 30 = Inr (midnight 739277)"
  "dt_min (midnight 739277) (midnight 739248) = midnight 739248"
  "\<not> dt_less (midnight 739248) (midnight 739248)"
  by (simp_all add: dt_simps)

text \<open>
  C1 on the code. \<^verbatim>\<open>search_bookings_by_date("2024-12-27", "2024-12-27")\<close> sends one request,
  whose \<^verbatim>\<open>startTime\<close> is Dec 27 00:00:00 Pacific time and whose \<^verbatim>\<open>endTime\<close> is
  2024-12-29T07:59:59Z, that is Dec 28 23:59:59 Pacific time: the end of the window is moved
  one day on by the tool and then to 23:59:59 of that day by the client, so the window sent
  covers Dec 27 and Dec 28.
\<close>

theorem one_day_query_covers_two_days:
  "search_bookings_by_date pacific_standard a_client one_empty_page
     ''2024-12-27'' ''2024-12-27'' False net0 =
     Some (Inr [],
           \<lparr>sent = [signed a_client ''/bookings''
                      [(''startTime'', PStr ''2024-12-27T08:00:00Z''),
                       (''endTime'', PStr ''2024-12-29T07:59:59Z''),
                       (''itemsPerPage'', PInt 100),
                       (''expandCustomer'', PStr ''true''),
                       (''includeCanceled'', PStr ''false'')]],
            slept = [1 / 2]\<rparr>)"
proof -
  have page: "success (one_empty_page (length (sent \<lparr>sent = [], slept = []\<rparr>)))
                \<lparr>e_data = Some [], e_info = None\<rparr>"
    by (simp add: success_def one_empty_page_def)
  have "search_bookings pacific_standard a_client one_empty_page
          (midnight 739247) (midnight 739248) True False net0 =
        Some (Inr (), [],
           \<lparr>sent = [signed a_client ''/bookings''
                      (search_params ''2024-12-27T08:00:00Z'' ''2024-12-29T07:59:59Z''
                         True False None None)],
            slept = [1 / 2]\<rparr>)"
    unfolding search_bookings_def
    by (subst chunk_loop.simps)
      (simp add: one_day_chunk one_day_bounds chunk_bounds_def chunk_loop_stop net0_def Let_def
        page_loop_step[where b = "\<lparr>e_data = Some [], e_info = None\<rparr>"
          and srv = one_empty_page and s = "\<lparr>sent = [], slept = []\<rparr>", OF page]
        page_simps)
  then show ?thesis
    by (simp add: search_bookings_by_date_def one_day_window search_params_def
        str_lower_bool_def truthy_def)
qed

text \<open>
  C5 on the code. A search tool has no \<^verbatim>\<open>try\<close> around its loop over \<^verbatim>\<open>search_bookings\<close>: when
  the service answers 500, \<^verbatim>\<open>raise_for_status\<close> raises and the exception leaves the tool,
  for the search by date and for the search by customer alike.
\<close>

theorem search_tools_raise:
  "search_bookings_by_date pacific_standard a_client server_error
     ''2024-12-27'' ''2024-12-27'' False net0 =
     Some (Inl (HTTPStatusError 500),
           \<lparr>sent = [signed a_client ''/bookings''
                      (search_params ''2024-12-27T08:00:00Z'' ''2024-12-29T07:59:59Z''
                         True False None None)],
            slept = []\<rparr>)
   \<and> search_bookings_by_customer pacific_standard (midnight 739248) a_client server_error
       ''ann'' '''' 1 net0 =
     Some (Inl (HTTPStatusError 500),
           \<lparr>sent = [signed a_client ''/bookings''
                      (search_params ''2024-12-27T08:00:00Z'' ''2024-12-29T07:59:59Z''
                         True False None None)],
            slept = []\<rparr>)"
proof -
  have bad: "not_429 (server_error (length (sent \<lparr>sent = [], slept = []\<rparr>)))"
    "finish (server_error (length (sent \<lparr>sent = [], slept = []\<rparr>))) =
       Inl (HTTPStatusError 500)"
    by (simp_all add: not_429_def finish_def checked_json_def server_error_def)
  have run: "search_bookings pacific_standard a_client server_error
          (midnight 739247) (midnight 739248) True False net0 =
        Some (Inl (HTTPStatusError 500), [],
           \<lparr>sent = [signed a_client ''/bookings''
                      (search_params ''2024-12-27T08:00:00Z'' ''2024-12-29T07:59:59Z''
                         True False None None)],
            slept = []\<rparr>)"
    unfolding search_bookings_def
    by (subst chunk_loop.simps)
      (simp add: one_day_chunk one_day_bounds chunk_bounds_def net0_def Let_def
        page_loop_error[where e = "HTTPStatusError 500" and srv = server_error
          and s = "\<lparr>sent = [], slept = []\<rparr>", OF bad])
  have shifted: "add_days (midnight 739248) (- min 1 365) = Inr (midnight 739247)"
    by (simp add: dt_simps)
  have "search_bookings_by_date pacific_standard a_client server_error
          ''2024-12-27'' ''2024-12-27'' False net0 =
        Some (Inl (HTTPStatusError 500),
           \<lparr>sent = [signed a_client ''/bookings''
                      (search_params ''2024-12-27T08:00:00Z'' ''2024-12-29T07:59:59Z''
                         True False None None)],
            slept = []\<rparr>)"
    by (simp add: search_bookings_by_date_def one_day_window run)
  moreover have "search_bookings_by_customer pacific_standard (midnight 739248) a_client
          server_error ''ann'' '''' 1 net0 =
        Some (Inl (HTTPStatusError 500),
           \<lparr>sent = [signed a_client ''/bookings''
                      (search_params ''2024-12-27T08:00:00Z'' ''2024-12-29T07:59:59Z''
                         True False None None)],
            slept = []\<rparr>)"
    using shifted by (simp add: search_bookings_by_customer_def Let_def run)
  ultimately show ?thesis by simp
qed

text \<open>The two lookup tools do catch: whatever the transport does, they return.\<close>

lemma get_booking_never_raises:
  assumes "get_booking c srv booking_number s = Some (r, s')"
  shows "\<exists>p. r = Inr p"
  using assms
  by (auto simp: get_booking_def split: Option.bind_splits prod.splits sum.splits)

lemma get_booking_payments_never_raises:
  assumes "get_booking_payments fl c srv booking_number s = Some (r, s')"
  shows "\<exists>p. r = Inr p"
  using assms
  by (auto simp: get_booking_payments_def Let_def
      split: Option.bind_splits prod.splits sum.splits)

lemma get_booking_catches:
  assumes "not_429 (srv (length (sent s)))" and "finish (srv (length (sent s))) = Inl e"
  shows "\<exists>s'. get_booking c srv booking_number s =
           Some (Inr (Error_payload ''Booking not found or API error: '' e), s')"
  using assms by (simp add: get_booking_def client_get_booking_def request_error)

lemma get_booking_payments_catches:
  assumes "not_429 (srv (length (sent s)))" and "finish (srv (length (sent s))) = Inl e"
  shows "\<exists>s'. get_booking_payments fl c srv booking_number s =
           Some (Inr (Error_payload ''Could not fetch payments: '' e), s')"
  using assms
  by (simp add: get_booking_payments_def client_get_booking_payments_def request_error)

subsection \<open>Projections of a booking\<close>









subsection \<open>The payment report\<close>


lemma paid_amounts_Inl:
  assumes "p \<in> set ps" and "paid_amount fl p = Inl e"
  shows "\<exists>e'. paid_amounts fl ps = Inl e'"
  using assms
  by (induction ps) (auto split: sum.splits)












subsection \<open>The chunking loop goes through the chunks\<close>

lemma chunks_next:
  assumes "dt_less current_start end_time"
  shows "chunks current_start end_time =
      (case add_days current_start 30 of
           Inl e \<Rightarrow> Inl e
         | Inr nxt \<Rightarrow>
             (case chunks (dt_min nxt end_time) end_time of
                Inl e \<Rightarrow> Inl e
              | Inr cs \<Rightarrow> Inr ((current_start, dt_min nxt end_time) # cs)))"
  using assms by (subst chunks.simps) (simp only: if_True Let_def)

lemma chunks_Nil:
  assumes "chunks current_start end_time = Inr []"
  shows "\<not> dt_less current_start end_time"
proof
  assume "dt_less current_start end_time"
  from chunks_next[OF this] assms show False
    by (auto simp del: chunks.simps split: sum.splits)
qed

lemma chunks_Cons:
  assumes "chunks current_start end_time = Inr (ch # cs)"
  shows "dt_less current_start end_time
       \<and> (\<exists>nxt. add_days current_start 30 = Inr nxt
              \<and> ch = (current_start, dt_min nxt end_time)
              \<and> chunks (dt_min nxt end_time) end_time = Inr cs)"
proof (cases "dt_less current_start end_time")
  case False
  then have "chunks current_start end_time = Inr []"
    by (rule chunks_stop)
  with assms show ?thesis by (simp del: chunks.simps)
next
  case True
  from chunks_next[OF this] assms True show ?thesis
    by (auto simp del: chunks.simps split: sum.splits)
qed

lemma chunk_loop_step:
  assumes "dt_less current_start end_time"
    and "add_days current_start 30 = Inr nxt"
    and "chunk_bounds tz current_start (dt_min nxt end_time) = Inr (start_s, end_s)"
    and "page_loop c srv start_s end_s ec ic None None acc s = Some (Inr (), acc', s')"
  shows "chunk_loop tz c srv ec ic current_start end_time acc s =
           chunk_loop tz c srv ec ic (dt_min nxt end_time) end_time acc'
             (s'\<lparr>slept := slept s' @ [1 / 2]\<rparr>)"
  by (subst chunk_loop.simps) (simp add: assms Let_def)

text \<open>
  When the pagination of every chunk ends on its first page, \<^verbatim>\<open>search_bookings\<close> goes through
  exactly the chunks of \<open>chunks\<close>, in order: one request per chunk, with the bounds of that
  chunk, and a pause of half a second after each.
\<close>

lemma chunk_loop_follows_chunks:
  assumes "chunks current_start end_time = Inr cs"
    and "list_all2 (\<lambda>ch b. chunk_bounds tz (fst ch) (snd ch) = Inr b) cs bounds"
    and "length pages = length cs"
    and "\<forall>i < length cs. success (srv (length (sent s) + i)) (pages ! i)
                         \<and> \<not> truthy (pg_nextPageURL (paging_of (pages ! i)))"
  shows "chunk_loop tz c srv ec ic current_start end_time acc s =
           Some (Inr (), acc @ concat (map (\<lambda>b. get (e_data b) []) pages),
                 s\<lparr>sent := sent s
                     @ map (\<lambda>(start_s, end_s).
                              signed c ''/bookings'' (search_params start_s end_s ec ic None None))
                         bounds,
                   slept := slept s @ replicate (length cs) (1 / 2)\<rparr>)"
  using assms
proof (induction cs arbitrary: current_start acc s bounds pages)
  case Nil
  from Nil.prems(1) have "\<not> dt_less current_start end_time"
    by (rule chunks_Nil)
  then have "chunk_loop tz c srv ec ic current_start end_time acc s = Some (Inr (), acc, s)"
    by (rule chunk_loop_stop)
  moreover from Nil.prems(2) have "bounds = []"
    by simp
  moreover from Nil.prems(3) have "pages = []"
    by simp
  ultimately show ?case
    by simp
next
  case (Cons ch cs)
  from chunks_Cons[OF Cons.prems(1)] obtain nxt
    where less: "dt_less current_start end_time"
      and add: "add_days current_start 30 = Inr nxt"
      and ch: "ch = (current_start, dt_min nxt end_time)"
      and rest: "chunks (dt_min nxt end_time) end_time = Inr cs"
    by blast
  from Cons.prems(2) obtain b bs
    where bounds: "bounds = b # bs"
      and b: "chunk_bounds tz (fst ch) (snd ch) = Inr b"
      and bs: "list_all2 (\<lambda>ch b. chunk_bounds tz (fst ch) (snd ch) = Inr b) cs bs"
    by (auto simp: list_all2_Cons1)
  obtain start_s end_s where se: "b = (start_s, end_s)"
    by (cases b)
  from Cons.prems(3) obtain p ps where pages: "pages = p # ps" and ps: "length ps = length cs"
    by (cases pages) auto
  let ?s1 = "s\<lparr>sent := sent s
      @ [signed c ''/bookings'' (search_params start_s end_s ec ic None None)]\<rparr>"
  let ?s2 = "?s1\<lparr>slept := slept ?s1 @ [1 / 2]\<rparr>"
  have first: "success (srv (length (sent s))) p"
    and single: "\<not> truthy (pg_nextPageURL (paging_of p))"
    using Cons.prems(4) pages by force+
  have page: "page_loop c srv start_s end_s ec ic None None acc s =
      Some (Inr (), acc @ get (e_data p) [], ?s1)"
    using first single by (simp add: page_loop_step[where b = p])
  have step: "chunk_loop tz c srv ec ic current_start end_time acc s =
      chunk_loop tz c srv ec ic (dt_min nxt end_time) end_time (acc @ get (e_data p) []) ?s2"
    using less add b page unfolding ch se by (intro chunk_loop_step) simp_all
  have later: "\<forall>i < length cs. success (srv (length (sent ?s2) + i)) (ps ! i)
                         \<and> \<not> truthy (pg_nextPageURL (paging_of (ps ! i)))"
    using Cons.prems(4) pages by force
  have "chunk_loop tz c srv ec ic (dt_min nxt end_time) end_time (acc @ get (e_data p) []) ?s2 =
      Some (Inr (), (acc @ get (e_data p) []) @ concat (map (\<lambda>b. get (e_data b) []) ps),
            ?s2\<lparr>sent := sent ?s2
                @ map (\<lambda>(start_s, end_s).
                         signed c ''/bookings'' (search_params start_s end_s ec ic None None))
                    bs,
              slept := slept ?s2 @ replicate (length cs) (1 / 2)\<rparr>)"
    using rest bs ps later by (rule Cons.IH)
  with step show ?case
    by (simp add: bounds pages se replicate_app_Cons_same)
qed

end
